theory Spec2Isabelle
  imports Main
begin

section \<open>Framework: events and aggregates\<close>

text \<open>
  \<^verbatim>\<open>framework/Event.ts\<close> declares an event as a readonly object with a discriminator
  \<^verbatim>\<open>_tag\<close>, the owning \<^verbatim>\<open>aggregateId\<close> and a payload.  The framework code is generic
  in the event type \<^verbatim>\<open>E extends AnyEvent\<close>; here it is a type variable \<open>'e\<close>, and the
  two places that read a field of an event take the reader of that field as an
  argument (\<open>tagOf\<close> for \<^verbatim>\<open>e._tag\<close>, \<open>idOf\<close> for \<^verbatim>\<open>e.aggregateId\<close>).
\<close>

type_synonym AggregateId = string

text \<open>
  \<^verbatim>\<open>framework/Aggregate.ts\<close>, type \<^verbatim>\<open>Aggregate<State, E>\<close>.  The JavaScript number
  \<^verbatim>\<open>version\<close> is a natural number here.  That is exact for every aggregate built
  from the factory, whose version counts the events in its two arrays and stays far
  below \<open>2 ^ 53\<close>; it is not the program's arithmetic at \<open>2 ^ 53\<close> and beyond, where
  adding one to a JavaScript number no longer changes it.
\<close>

record ('s, 'e) Aggregate =
  aggregateId :: AggregateId
  state :: 's
  committedChanges :: "'e list"
  uncommittedChanges :: "'e list"
  version :: nat

text \<open>\<^verbatim>\<open>makeFactory(state)(aggregateId)\<close>.\<close>

definition makeFactory :: "'s \<Rightarrow> AggregateId \<Rightarrow> ('s, 'e) Aggregate" where
  "makeFactory st aid =
     \<lparr> aggregateId = aid,
       state = st,
       committedChanges = [],
       uncommittedChanges = [],
       version = 0 \<rparr>"

text \<open>
  \<^verbatim>\<open>markChangesAsCommitted(aggregate)\<close>: the spread keeps every other field;
  \<^verbatim>\<open>Array.appendAll\<close> is list concatenation.
\<close>

definition markChangesAsCommitted :: "('s, 'e) Aggregate \<Rightarrow> ('s, 'e) Aggregate" where
  "markChangesAsCommitted aggregate =
     aggregate\<lparr> committedChanges := committedChanges aggregate @ uncommittedChanges aggregate,
                uncommittedChanges := [] \<rparr>"

text \<open>
  \<^verbatim>\<open>makeEventApplier(applyEventToState)(aggregate, event, isNew)\<close>.
  \<^verbatim>\<open>Array.append(xs, x)\<close> is \<open>xs @ [x]\<close>, \<^verbatim>\<open>Number.increment\<close> adds one.
\<close>

definition makeEventApplier ::
  "('s \<Rightarrow> 'e \<Rightarrow> 's) \<Rightarrow> ('s, 'e) Aggregate \<Rightarrow> 'e \<Rightarrow> bool \<Rightarrow> ('s, 'e) Aggregate" where
  "makeEventApplier applyEventToState aggregate event isNew =
     aggregate\<lparr> state := applyEventToState (state aggregate) event,
                committedChanges :=
                  (if isNew then committedChanges aggregate
                   else committedChanges aggregate @ [event]),
                uncommittedChanges :=
                  (if isNew then uncommittedChanges aggregate @ [event]
                   else uncommittedChanges aggregate),
                version := version aggregate + 1 \<rparr>"

text \<open>
  A call made on an aggregate by client code: an event application with its
  \<^verbatim>\<open>isNew\<close> flag, or \<^verbatim>\<open>markChangesAsCommitted\<close>.  \<open>runCalls\<close> performs a sequence
  of them from left to right.
\<close>

datatype 'e AggregateCall = ApplyEvent 'e bool | MarkChangesAsCommitted

fun runCall ::
  "('s \<Rightarrow> 'e \<Rightarrow> 's) \<Rightarrow> ('s, 'e) Aggregate \<Rightarrow> 'e AggregateCall \<Rightarrow> ('s, 'e) Aggregate" where
  "runCall reducer a (ApplyEvent e isNew) = makeEventApplier reducer a e isNew"
| "runCall reducer a MarkChangesAsCommitted = markChangesAsCommitted a"

definition runCalls ::
  "('s \<Rightarrow> 'e \<Rightarrow> 's) \<Rightarrow> ('s, 'e) Aggregate \<Rightarrow> 'e AggregateCall list \<Rightarrow> ('s, 'e) Aggregate" where
  "runCalls reducer a calls = foldl (runCall reducer) a calls"

section \<open>The event applier on a store of objects\<close>

text \<open>
  The definitions above treat an aggregate as a value.  In the program it is an
  object that holds references to two arrays, and whether a call changes an object
  that the caller still holds is a question about the store.  Here the store is
  explicit: arrays and aggregate objects live at addresses (their positions in the
  two lists), and allocation adds at the end.  The applier's object literal
  \<^verbatim>\<open>{ ...aggregate, state, committedChanges, uncommittedChanges, version }\<close>
  allocates one object; \<^verbatim>\<open>Array.append\<close> allocates one array; the branch that does
  not append passes the old array's reference on.
\<close>

type_synonym ref = nat

record 's AggregateObject =
  obj_aggregateId :: AggregateId
  obj_state :: 's
  obj_committedChanges :: ref
  obj_uncommittedChanges :: ref
  obj_version :: nat

record ('s, 'e) Heap =
  arrays :: "'e list list"
  objects :: "'s AggregateObject list"

definition newArray :: "('s, 'e) Heap \<Rightarrow> 'e list \<Rightarrow> ('s, 'e) Heap \<times> ref" where
  "newArray h xs = (h\<lparr> arrays := arrays h @ [xs] \<rparr>, length (arrays h))"

definition newObject :: "('s, 'e) Heap \<Rightarrow> 's AggregateObject \<Rightarrow> ('s, 'e) Heap \<times> ref" where
  "newObject h obj = (h\<lparr> objects := objects h @ [obj] \<rparr>, length (objects h))"

definition heap_applyEvent ::
  "('s \<Rightarrow> 'e \<Rightarrow> 's) \<Rightarrow> ('s, 'e) Heap \<Rightarrow> ref \<Rightarrow> 'e \<Rightarrow> bool \<Rightarrow> ('s, 'e) Heap \<times> ref" where
  "heap_applyEvent applyEventToState h r event isNew =
     (let aggregate = objects h ! r;
          newState = applyEventToState (obj_state aggregate) event;
          (h1, c) = (if isNew then (h, obj_committedChanges aggregate)
                     else newArray h (arrays h ! obj_committedChanges aggregate @ [event]));
          (h2, u) = (if isNew
                     then newArray h1 (arrays h1 ! obj_uncommittedChanges aggregate @ [event])
                     else (h1, obj_uncommittedChanges aggregate))
      in newObject h2
           \<lparr> obj_aggregateId = obj_aggregateId aggregate,
             obj_state = newState,
             obj_committedChanges = c,
             obj_uncommittedChanges = u,
             obj_version = obj_version aggregate + 1 \<rparr>)"

text \<open>
  A reference is live when it and the two array references of its object are
  allocated.  \<open>readAggregate\<close> is the aggregate value that a live reference denotes.
\<close>

definition liveAggregate :: "('s, 'e) Heap \<Rightarrow> ref \<Rightarrow> bool" where
  "liveAggregate h r \<longleftrightarrow>
     r < length (objects h) \<and>
     obj_committedChanges (objects h ! r) < length (arrays h) \<and>
     obj_uncommittedChanges (objects h ! r) < length (arrays h)"

definition readAggregate :: "('s, 'e) Heap \<Rightarrow> ref \<Rightarrow> ('s, 'e) Aggregate" where
  "readAggregate h r =
     (let obj = objects h ! r
      in \<lparr> aggregateId = obj_aggregateId obj,
           state = obj_state obj,
           committedChanges = arrays h ! obj_committedChanges obj,
           uncommittedChanges = arrays h ! obj_uncommittedChanges obj,
           version = obj_version obj \<rparr>)"

section \<open>Framework: the in-memory event store\<close>

text \<open>
  \<^verbatim>\<open>framework/EventStore.ts\<close>, \<^verbatim>\<open>makeInMemory\<close>.  The closure variable
  \<^verbatim>\<open>storedEvents\<close> is the whole state of the store: one log for all aggregates.
  Each method takes that log; \<^verbatim>\<open>saveEvents\<close>, the only method that assigns to the
  variable, returns the new log.
\<close>

type_synonym 'e EventStore = "'e list"

definition makeInMemory :: "'e list \<Rightarrow> 'e EventStore" where
  "makeInMemory initialEvents = initialEvents"

text \<open>\<^verbatim>\<open>Array.contains(tags, tag)\<close>: a linear search with strict equality.\<close>

primrec contains :: "'a list \<Rightarrow> 'a \<Rightarrow> bool" where
  "contains [] a = False"
| "contains (x # xs) a = (if x = a then True else contains xs a)"

definition hasMatchingTag :: "('e \<Rightarrow> string) \<Rightarrow> string list \<Rightarrow> 'e \<Rightarrow> bool" where
  "hasMatchingTag tagOf tags e = contains tags (tagOf e)"

definition loadEvents :: "('e \<Rightarrow> string) \<Rightarrow> 'e EventStore \<Rightarrow> string list \<Rightarrow> 'e list" where
  "loadEvents tagOf storedEvents tags = filter (hasMatchingTag tagOf tags) storedEvents"

definition loadEventsForAggregate ::
  "('e \<Rightarrow> string) \<Rightarrow> ('e \<Rightarrow> AggregateId) \<Rightarrow> 'e EventStore \<Rightarrow> AggregateId \<Rightarrow> string list \<Rightarrow> 'e list" where
  "loadEventsForAggregate tagOf idOf storedEvents aid tags =
     filter (hasMatchingTag tagOf tags) (filter (\<lambda>e. idOf e = aid) storedEvents)"

text \<open>
  \<^verbatim>\<open>saveEvents(_aggregateId, events)\<close>: the identifier argument is not used; the
  events go to the end of the one log.
\<close>

definition saveEvents :: "'e EventStore \<Rightarrow> AggregateId \<Rightarrow> 'e list \<Rightarrow> 'e EventStore" where
  "saveEvents storedEvents aid events = storedEvents @ events"

text \<open>
  \<^verbatim>\<open>commit(aggregate, store)\<close>: saves the uncommitted changes, then marks them
  committed.  The result is the new store state with the returned aggregate.
\<close>

definition commit ::
  "('s, 'e) Aggregate \<Rightarrow> 'e EventStore \<Rightarrow> 'e EventStore \<times> ('s, 'e) Aggregate" where
  "commit aggregate store =
     (saveEvents store (aggregateId aggregate) (uncommittedChanges aggregate),
      markChangesAsCommitted aggregate)"

subsection \<open>The earlier store, partitioned by aggregate identifier\<close>

text \<open>
  The flat-layout revision of \<^verbatim>\<open>EventStore.ts\<close> keeps a record from aggregate
  identifier to that aggregate's events.  \<^verbatim>\<open>Record.get\<close> followed by
  \<^verbatim>\<open>Option.getOrElse(Array.empty)\<close> reads an absent key as the empty array.
\<close>

type_synonym 'e PartitionedStore = "AggregateId \<rightharpoonup> 'e list"

definition partitioned_loadEvents ::
  "('e \<Rightarrow> string) \<Rightarrow> 'e PartitionedStore \<Rightarrow> AggregateId \<Rightarrow> string list \<Rightarrow> 'e list" where
  "partitioned_loadEvents tagOf eventsByAggregate aid tags =
     (case eventsByAggregate aid of
        None \<Rightarrow> []
      | Some es \<Rightarrow> filter (hasMatchingTag tagOf tags) es)"

definition partitioned_saveEvents ::
  "'e PartitionedStore \<Rightarrow> AggregateId \<Rightarrow> 'e list \<Rightarrow> 'e PartitionedStore" where
  "partitioned_saveEvents eventsByAggregate aid events =
     (let existingEvents = (case eventsByAggregate aid of None \<Rightarrow> [] | Some es \<Rightarrow> es);
          updatedEvents = existingEvents @ events
      in eventsByAggregate(aid \<mapsto> updatedEvents))"

section \<open>Domain: the user aggregate\<close>

text \<open>
  \<^verbatim>\<open>domain/User.ts\<close>.  \<^verbatim>\<open>UserEvent\<close> is a closed union of three event shapes, each
  with its own payload; the optional \<^verbatim>\<open>phoneNumber\<close> of \<^verbatim>\<open>UserCreated\<close> is an
  \<open>option\<close>.  The first argument of every constructor is the event's
  \<^verbatim>\<open>aggregateId\<close>; \<open>event_tag\<close> is its \<^verbatim>\<open>_tag\<close>.
\<close>

record UserState =
  firstName :: string
  lastName :: string
  displayName :: string
  phoneNumber :: "string option"

datatype UserEvent =
    UserCreated AggregateId string string "string option"
  | FirstNameUpdated AggregateId string
  | PhoneNumberUpdated AggregateId string

fun event_tag :: "UserEvent \<Rightarrow> string" where
  "event_tag (UserCreated aid fn ln pn) = ''UserCreated''"
| "event_tag (FirstNameUpdated aid fn) = ''FirstNameUpdated''"
| "event_tag (PhoneNumberUpdated aid pn) = ''PhoneNumberUpdated''"

fun event_aggregateId :: "UserEvent \<Rightarrow> AggregateId" where
  "event_aggregateId (UserCreated aid fn ln pn) = aid"
| "event_aggregateId (FirstNameUpdated aid fn) = aid"
| "event_aggregateId (PhoneNumberUpdated aid pn) = aid"

definition EventTags :: "string list" where
  "EventTags = [''UserCreated'', ''FirstNameUpdated'', ''PhoneNumberUpdated'']"

type_synonym UserAggregate = "(UserState, UserEvent) Aggregate"

definition emptyState :: UserState where
  "emptyState = \<lparr> firstName = [], lastName = [], displayName = [], phoneNumber = None \<rparr>"

definition empty :: "AggregateId \<Rightarrow> UserAggregate" where
  "empty = makeFactory emptyState"

text \<open>
  \<^verbatim>\<open>applyEventToState\<close>: \<^verbatim>\<open>Match.valueTags\<close> on the three tags.  The template
  string with one blank between its two holes is \<open>a @ '' '' @ b\<close>;
  \<^verbatim>\<open>Option.fromNullable\<close> of an absent field is \<open>None\<close>.
\<close>

fun applyEventToState :: "UserState \<Rightarrow> UserEvent \<Rightarrow> UserState" where
  "applyEventToState st (UserCreated aid fn ln pn) =
     \<lparr> firstName = fn, lastName = ln, displayName = fn @ '' '' @ ln, phoneNumber = pn \<rparr>"
| "applyEventToState st (FirstNameUpdated aid fn) =
     st\<lparr> firstName := fn, displayName := fn @ '' '' @ lastName st \<rparr>"
| "applyEventToState st (PhoneNumberUpdated aid pn) =
     st\<lparr> phoneNumber := Some pn \<rparr>"

definition applyEvent :: "UserAggregate \<Rightarrow> UserEvent \<Rightarrow> bool \<Rightarrow> UserAggregate" where
  "applyEvent = makeEventApplier applyEventToState"

text \<open>\<^verbatim>\<open>loadFromHistory\<close>: \<^verbatim>\<open>Array.reduce\<close> is a left fold.\<close>

definition loadFromHistory :: "AggregateId \<Rightarrow> UserEvent list \<Rightarrow> UserAggregate" where
  "loadFromHistory aid events =
     (let initial = empty aid
      in foldl (\<lambda>agg event. applyEvent agg event False) initial events)"

text \<open>
  \<^verbatim>\<open>create\<close>: the optional argument is tested for truthiness, so an absent and an
  empty phone number both give a payload without the field.
\<close>

definition create :: "AggregateId \<Rightarrow> string \<Rightarrow> string \<Rightarrow> string option \<Rightarrow> UserAggregate" where
  "create aid fn ln pn =
     (let event = UserCreated aid fn ln
                    (case pn of None \<Rightarrow> None | Some p \<Rightarrow> if p = [] then None else Some p)
      in applyEvent (empty aid) event True)"

definition updateFirstName :: "UserAggregate \<Rightarrow> string \<Rightarrow> UserAggregate" where
  "updateFirstName aggregate fn =
     (let event = FirstNameUpdated (aggregateId aggregate) fn
      in applyEvent aggregate event True)"

definition updatePhoneNumber :: "UserAggregate \<Rightarrow> string \<Rightarrow> UserAggregate" where
  "updatePhoneNumber aggregate pn =
     (let event = PhoneNumberUpdated (aggregateId aggregate) pn
      in applyEvent aggregate event True)"

subsection \<open>The user repository\<close>

text \<open>
  \<^verbatim>\<open>domain/UserRepository.ts\<close>, \<^verbatim>\<open>make(store)\<close>.  \<^verbatim>\<open>getById\<close> reads the store;
  \<^verbatim>\<open>save\<close> changes it and returns the new store state with the committed aggregate.
\<close>

definition getById :: "UserEvent EventStore \<Rightarrow> AggregateId \<Rightarrow> UserAggregate" where
  "getById store aid =
     (let events = loadEventsForAggregate event_tag event_aggregateId store aid
                     [''UserCreated'', ''FirstNameUpdated'']
      in loadFromHistory aid events)"

definition save :: "UserEvent EventStore \<Rightarrow> UserAggregate \<Rightarrow> UserEvent EventStore \<times> UserAggregate" where
  "save store aggregate = commit aggregate store"

text \<open>
  The two update operations as data, so that a pipeline of
  \<^verbatim>\<open>User.updateFirstName\<close> and \<^verbatim>\<open>User.updatePhoneNumber\<close> calls is a list.
\<close>

datatype UserUpdate = UpdateFirstName string | UpdatePhoneNumber string

fun runUpdate :: "UserAggregate \<Rightarrow> UserUpdate \<Rightarrow> UserAggregate" where
  "runUpdate a (UpdateFirstName fn) = updateFirstName a fn"
| "runUpdate a (UpdatePhoneNumber pn) = updatePhoneNumber a pn"

text \<open>The event that an update operation builds for an aggregate with identifier \<open>aid\<close>.\<close>

fun updateEvent :: "AggregateId \<Rightarrow> UserUpdate \<Rightarrow> UserEvent" where
  "updateEvent aid (UpdateFirstName fn) = FirstNameUpdated aid fn"
| "updateEvent aid (UpdatePhoneNumber pn) = PhoneNumberUpdated aid pn"

fun isUpdateFirstName :: "UserUpdate \<Rightarrow> bool" where
  "isUpdateFirstName (UpdateFirstName fn) = True"
| "isUpdateFirstName (UpdatePhoneNumber pn) = False"

text \<open>
  The run of the demonstration driver \<^verbatim>\<open>main\<close> in \<^verbatim>\<open>index.ts\<close>: two users are
  created and saved, then the first is fetched, renamed, given a phone number and
  saved.
\<close>

definition demoStoreAfterCreates :: "UserEvent EventStore" where
  "demoStoreAfterCreates =
     (let store0 = makeInMemory [];
          store1 = fst (save store0 (create ''user-001'' ''Robert'' ''Smith'' None))
      in fst (save store1 (create ''user-002'' ''Alice'' ''Smith'' (Some ''555-5678''))))"

definition demoUpdatedRobert :: UserAggregate where
  "demoUpdatedRobert =
     updatePhoneNumber (updateFirstName (getById demoStoreAfterCreates ''user-001'') ''Bob'')
       ''555-1234''"

definition demoStoreAfterUpdate :: "UserEvent EventStore" where
  "demoStoreAfterUpdate = fst (save demoStoreAfterCreates demoUpdatedRobert)"

section \<open>Projection: the user directory\<close>

text \<open>
  \<^verbatim>\<open>projections/UserDirectory.ts\<close>.  The fields of \<^verbatim>\<open>DirectoryEntry\<close> and of the
  internal \<^verbatim>\<open>UserProjection\<close> carry a prefix here, since \<^verbatim>\<open>UserState\<close> already owns
  the plain names.
\<close>

record DirectoryEntry =
  entry_id :: AggregateId
  entry_displayName :: string
  entry_phoneNumber :: string

record UserDirectory =
  totalUsers :: nat
  usersWithPhone :: nat
  entries :: "DirectoryEntry list"

record UserProjection =
  proj_firstName :: string
  proj_lastName :: string
  proj_phoneNumber :: "string option"

text \<open>
  \<^verbatim>\<open>ProjectionRecord\<close> is a plain JavaScript object used as a dictionary.  It is an
  association list with distinct keys, in the order in which the keys were created.
  \<^verbatim>\<open>Record.get\<close> looks an own key up; \<^verbatim>\<open>Record.set\<close> builds
  \<^verbatim>\<open>{ ...self, [key]: value }\<close>, which keeps the place of a key that is already
  there and puts a new key last.
\<close>

type_synonym ProjectionRecord = "(AggregateId \<times> UserProjection) list"

definition Record_get :: "(string \<times> 'v) list \<Rightarrow> string \<Rightarrow> 'v option" where
  "Record_get self k = map_of self k"

definition Record_set :: "(string \<times> 'v) list \<Rightarrow> string \<Rightarrow> 'v \<Rightarrow> (string \<times> 'v) list" where
  "Record_set self k v =
     (case map_of self k of
        None \<Rightarrow> self @ [(k, v)]
      | Some old \<Rightarrow> map (\<lambda>(k', v'). if k' = k then (k', v) else (k', v')) self)"

text \<open>
  \<^verbatim>\<open>Record.toEntries\<close> enumerates the own keys as \<^verbatim>\<open>Object.keys\<close> does: first the
  keys that are array indices (canonical decimal numerals below \<open>2 ^ 32 - 1\<close>) in
  ascending numeric order, then every other key in creation order.
\<close>

definition isDigit :: "char \<Rightarrow> bool" where
  "isDigit c \<longleftrightarrow> contains ''0123456789'' c"

definition decimalValue :: "string \<Rightarrow> nat" where
  "decimalValue k = foldl (\<lambda>n c. 10 * n + (of_char c - 48)) 0 k"

definition isArrayIndex :: "string \<Rightarrow> bool" where
  "isArrayIndex k \<longleftrightarrow>
     (case k of
        [] \<Rightarrow> False
      | c # cs \<Rightarrow> list_all isDigit k \<and> (c \<noteq> CHR ''0'' \<or> cs = []) \<and>
                 decimalValue k < 2 ^ 32 - 1)"

definition Record_toEntries :: "(string \<times> 'v) list \<Rightarrow> (string \<times> 'v) list" where
  "Record_toEntries self =
     sort_key (\<lambda>(k, v). decimalValue k) (filter (\<lambda>(k, v). isArrayIndex k) self) @
     filter (\<lambda>(k, v). \<not> isArrayIndex k) self"

text \<open>\<^verbatim>\<open>Array.filterMap\<close>: keeps the values of the \<^verbatim>\<open>Some\<close> results, in order.\<close>

primrec filterMap :: "('a \<Rightarrow> 'b option) \<Rightarrow> 'a list \<Rightarrow> 'b list" where
  "filterMap f [] = []"
| "filterMap f (x # xs) =
     (case f x of None \<Rightarrow> filterMap f xs | Some y \<Rightarrow> y # filterMap f xs)"

text \<open>The projection's own \<^verbatim>\<open>applyEvent(users, event)\<close>.\<close>

fun directory_applyEvent :: "ProjectionRecord \<Rightarrow> UserEvent \<Rightarrow> ProjectionRecord" where
  "directory_applyEvent users (UserCreated aid fn ln pn) =
     Record_set users aid
       \<lparr> proj_firstName = fn, proj_lastName = ln, proj_phoneNumber = pn \<rparr>"
| "directory_applyEvent users (FirstNameUpdated aid fn) =
     (case Record_get users aid of
        Some existing \<Rightarrow> Record_set users aid (existing\<lparr> proj_firstName := fn \<rparr>)
      | None \<Rightarrow> users)"
| "directory_applyEvent users (PhoneNumberUpdated aid pn) =
     (case Record_get users aid of
        Some existing \<Rightarrow> Record_set users aid (existing\<lparr> proj_phoneNumber := Some pn \<rparr>)
      | None \<Rightarrow> users)"

definition toDirectory :: "ProjectionRecord \<Rightarrow> UserDirectory" where
  "toDirectory projections =
     (let allEntries = Record_toEntries projections;
          totalUsers = length allEntries;
          entries = filterMap
                      (\<lambda>(aid, projection).
                         map_option
                           (\<lambda>pn. \<lparr> entry_id = aid,
                                    entry_displayName =
                                      proj_firstName projection @ '' '' @ proj_lastName projection,
                                    entry_phoneNumber = pn \<rparr>)
                           (proj_phoneNumber projection))
                      allEntries
      in \<lparr> totalUsers = totalUsers, usersWithPhone = length entries, entries = entries \<rparr>)"

definition fromEvents :: "UserEvent list \<Rightarrow> UserDirectory" where
  "fromEvents events =
     (let initial = [];
          projections = foldl directory_applyEvent initial events
      in toDirectory projections)"

text \<open>
  \<^verbatim>\<open>projections/UserDirectoryRepository.ts\<close>, \<^verbatim>\<open>make(store).load()\<close>.
\<close>

definition directory_load :: "UserEvent EventStore \<Rightarrow> UserDirectory" where
  "directory_load store =
     (let events = loadEvents event_tag store
                     [''UserCreated'', ''FirstNameUpdated'', ''PhoneNumberUpdated'']
      in fromEvents events)"

text \<open>
  Whether an event is a \<^verbatim>\<open>UserCreated\<close> of the aggregate \<open>aid\<close>, and whether it is one
  of the two update events.
\<close>

fun isCreationOf :: "AggregateId \<Rightarrow> UserEvent \<Rightarrow> bool" where
  "isCreationOf aid (UserCreated aid' fn ln pn) = (aid' = aid)"
| "isCreationOf aid (FirstNameUpdated aid' fn) = False"
| "isCreationOf aid (PhoneNumberUpdated aid' pn) = False"

fun isUpdateEvent :: "UserEvent \<Rightarrow> bool" where
  "isUpdateEvent (UserCreated aid fn ln pn) = False"
| "isUpdateEvent (FirstNameUpdated aid fn) = True"
| "isUpdateEvent (PhoneNumberUpdated aid pn) = True"

section \<open>Aggregate engine: version bookkeeping\<close>

definition versionCountsChanges :: "('s, 'e) Aggregate \<Rightarrow> bool" where
  "versionCountsChanges a \<longleftrightarrow>
     version a = length (committedChanges a) + length (uncommittedChanges a)"

lemma versionCountsChanges_makeFactory: "versionCountsChanges (makeFactory st aid)"
  by (simp add: versionCountsChanges_def makeFactory_def)

lemma versionCountsChanges_runCall:
  "versionCountsChanges a \<Longrightarrow> versionCountsChanges (runCall reducer a c)"
  by (cases c) (simp_all add: versionCountsChanges_def makeEventApplier_def markChangesAsCommitted_def)

lemma versionCountsChanges_foldl:
  "versionCountsChanges a \<Longrightarrow> versionCountsChanges (foldl (runCall reducer) a calls)"
  by (induction calls arbitrary: a) (simp_all add: versionCountsChanges_runCall)

text \<open>
  C1.  Every aggregate reached from the factory by any sequence of event
  applications (with either flag) and commit markings has
  \<open>version = length committedChanges + length uncommittedChanges\<close>; the factory's
  aggregate has version 0 and two empty change lists; one event application on an
  aggregate so reached adds exactly one to its version, whatever the flag.  The step
  is stated for reached aggregates only: their version is the number of events the
  two arrays hold, where the program's \<^verbatim>\<open>Number.increment\<close> is exact, and nothing
  is said about an aggregate built by hand with a version beyond that range.
\<close>

theorem C1_version_counts_changes:
  "version (runCalls reducer (makeFactory st aid) calls) =
     length (committedChanges (runCalls reducer (makeFactory st aid) calls)) +
     length (uncommittedChanges (runCalls reducer (makeFactory st aid) calls))
   \<and> version (makeFactory st aid :: ('s, 'e) Aggregate) = 0
   \<and> committedChanges (makeFactory st aid :: ('s, 'e) Aggregate) = []
   \<and> uncommittedChanges (makeFactory st aid :: ('s, 'e) Aggregate) = []
   \<and> version (makeEventApplier reducer (runCalls reducer (makeFactory st aid) calls) e isNew) =
       version (runCalls reducer (makeFactory st aid) calls) + 1"
proof -
  have "versionCountsChanges (runCalls reducer (makeFactory st aid) calls)"
    unfolding runCalls_def
    by (rule versionCountsChanges_foldl) (rule versionCountsChanges_makeFactory)
  then have reach: "version (runCalls reducer (makeFactory st aid) calls) =
     length (committedChanges (runCalls reducer (makeFactory st aid) calls)) +
     length (uncommittedChanges (runCalls reducer (makeFactory st aid) calls))"
    by (simp add: versionCountsChanges_def)
  have fresh: "version (makeFactory st aid :: ('s, 'e) Aggregate) = 0
      \<and> committedChanges (makeFactory st aid :: ('s, 'e) Aggregate) = []
      \<and> uncommittedChanges (makeFactory st aid :: ('s, 'e) Aggregate) = []"
    by (simp add: makeFactory_def)
  have step:
    "version (makeEventApplier reducer (runCalls reducer (makeFactory st aid) calls) e isNew) =
       version (runCalls reducer (makeFactory st aid) calls) + 1"
    by (simp add: makeEventApplier_def)
  from reach fresh step show ?thesis by blast
qed

section \<open>Aggregate engine: applying an event\<close>

lemma heap_applyEvent_reads_new:
  "liveAggregate h r \<Longrightarrow>
     readAggregate (fst (heap_applyEvent reducer h r e isNew))
                   (snd (heap_applyEvent reducer h r e isNew)) =
       makeEventApplier reducer (readAggregate h r) e isNew"
  by (cases isNew)
     (simp_all add: heap_applyEvent_def newArray_def newObject_def readAggregate_def
        makeEventApplier_def liveAggregate_def Let_def nth_append)

lemma heap_applyEvent_keeps_old:
  "liveAggregate h r \<Longrightarrow>
     readAggregate (fst (heap_applyEvent reducer h r e isNew)) r = readAggregate h r"
  by (cases isNew)
     (simp_all add: heap_applyEvent_def newArray_def newObject_def readAggregate_def
        liveAggregate_def Let_def nth_append)

lemma heap_applyEvent_extends_objects:
  "take (length (objects h)) (objects (fst (heap_applyEvent reducer h r e isNew))) = objects h"
  by (cases isNew) (simp_all add: heap_applyEvent_def newArray_def newObject_def Let_def)

lemma heap_applyEvent_extends_arrays:
  "take (length (arrays h)) (arrays (fst (heap_applyEvent reducer h r e isNew))) = arrays h"
  by (cases isNew) (simp_all add: heap_applyEvent_def newArray_def newObject_def Let_def)

text \<open>
  C2.  The applier's result has the reducer's state for \<open>(state a, e)\<close>.  With
  \<open>isNew\<close> the event is appended to the uncommitted changes and the committed ones
  stay; without it the event is appended to the committed changes and the
  uncommitted ones stay.  The input is not mutated: on the store of objects, the
  call only allocates, so every object and array that existed before is still there
  unchanged, the caller's reference \<open>r\<close> still denotes the same aggregate value, and
  the returned reference denotes the value computed by \<open>makeEventApplier\<close>.
\<close>

theorem C2_applyEvent_result:
  "state (makeEventApplier reducer a e isNew) = reducer (state a) e
   \<and> (isNew \<longrightarrow>
        uncommittedChanges (makeEventApplier reducer a e isNew) = uncommittedChanges a @ [e]
        \<and> committedChanges (makeEventApplier reducer a e isNew) = committedChanges a)
   \<and> (\<not> isNew \<longrightarrow>
        committedChanges (makeEventApplier reducer a e isNew) = committedChanges a @ [e]
        \<and> uncommittedChanges (makeEventApplier reducer a e isNew) = uncommittedChanges a)
   \<and> (liveAggregate h r \<longrightarrow>
        readAggregate (fst (heap_applyEvent reducer h r e isNew))
                      (snd (heap_applyEvent reducer h r e isNew)) =
          makeEventApplier reducer (readAggregate h r) e isNew
        \<and> readAggregate (fst (heap_applyEvent reducer h r e isNew)) r = readAggregate h r
        \<and> take (length (objects h)) (objects (fst (heap_applyEvent reducer h r e isNew))) =
            objects h
        \<and> take (length (arrays h)) (arrays (fst (heap_applyEvent reducer h r e isNew))) =
            arrays h)"
proof -
  have pure: "state (makeEventApplier reducer a e isNew) = reducer (state a) e
      \<and> (isNew \<longrightarrow>
           uncommittedChanges (makeEventApplier reducer a e isNew) = uncommittedChanges a @ [e]
           \<and> committedChanges (makeEventApplier reducer a e isNew) = committedChanges a)
      \<and> (\<not> isNew \<longrightarrow>
           committedChanges (makeEventApplier reducer a e isNew) = committedChanges a @ [e]
           \<and> uncommittedChanges (makeEventApplier reducer a e isNew) = uncommittedChanges a)"
    by (simp add: makeEventApplier_def)
  show ?thesis
    using pure heap_applyEvent_reads_new [of h r reducer e isNew]
      heap_applyEvent_keeps_old [of h r reducer e isNew]
      heap_applyEvent_extends_objects [of h reducer r e isNew]
      heap_applyEvent_extends_arrays [of h reducer r e isNew]
    by blast
qed

theorem C2_applyEvent_result_witness:
  "liveAggregate
     \<lparr> arrays = [[], []],
       objects = [\<lparr> obj_aggregateId = ''user-001'', obj_state = emptyState,
                    obj_committedChanges = 0, obj_uncommittedChanges = 1,
                    obj_version = 0 \<rparr>] \<rparr> 0
   \<and> readAggregate
       (fst (heap_applyEvent applyEventToState
          \<lparr> arrays = [[], []],
            objects = [\<lparr> obj_aggregateId = ''user-001'', obj_state = emptyState,
                         obj_committedChanges = 0, obj_uncommittedChanges = 1,
                         obj_version = 0 \<rparr>] \<rparr> 0
          (UserCreated ''user-001'' ''Robert'' ''Smith'' None) True)) 0 =
     \<lparr> aggregateId = ''user-001'', state = emptyState, committedChanges = [],
       uncommittedChanges = [], version = 0 \<rparr>
   \<and> uncommittedChanges (makeEventApplier applyEventToState (empty ''user-001'')
        (UserCreated ''user-001'' ''Robert'' ''Smith'' None) True) =
       [UserCreated ''user-001'' ''Robert'' ''Smith'' None]"
  using C2_applyEvent_result
    [of applyEventToState "empty ''user-001''"
        "UserCreated ''user-001'' ''Robert'' ''Smith'' None" True
        "\<lparr> arrays = [[], []],
           objects = [\<lparr> obj_aggregateId = ''user-001'', obj_state = emptyState,
                        obj_committedChanges = 0, obj_uncommittedChanges = 1,
                        obj_version = 0 \<rparr>] \<rparr>" 0]
  by (simp add: liveAggregate_def readAggregate_def empty_def makeFactory_def)

section \<open>Aggregate engine: marking changes as committed\<close>

text \<open>
  C3.  \<open>markChangesAsCommitted a\<close> has the committed changes of \<open>a\<close> followed by its
  uncommitted changes, in order, and no uncommitted changes; marking twice in a row
  gives the same aggregate as marking once.
\<close>

theorem C3_markChangesAsCommitted:
  "committedChanges (markChangesAsCommitted a) = committedChanges a @ uncommittedChanges a
   \<and> uncommittedChanges (markChangesAsCommitted a) = []
   \<and> markChangesAsCommitted (markChangesAsCommitted a) = markChangesAsCommitted a"
  by (simp add: markChangesAsCommitted_def)

section \<open>Replay of a user's history\<close>

lemma replay_foldl:
  "foldl (\<lambda>agg event. applyEvent agg event False) a es =
     a\<lparr> state := foldl applyEventToState (state a) es,
        committedChanges := committedChanges a @ es,
        version := version a + length es \<rparr>"
  by (induction es arbitrary: a) (simp_all add: applyEvent_def makeEventApplier_def)

lemma loadFromHistory_eq:
  "loadFromHistory aid es =
     \<lparr> aggregateId = aid, state = foldl applyEventToState emptyState es,
       committedChanges = es, uncommittedChanges = [], version = length es \<rparr>"
  by (simp add: loadFromHistory_def replay_foldl empty_def makeFactory_def)

text \<open>
  C5.  The state of \<open>loadFromHistory aid S\<close> is the left fold of the user reducer
  \<open>applyEventToState\<close> over \<open>S\<close> from the empty initial state.  Replay is
  deterministic: the state depends on the event sequence alone, so two replays of the
  same sequence, under whatever identifiers, end in the same state.
\<close>

theorem C5_replay_is_fold:
  "state (loadFromHistory aid S) = foldl applyEventToState emptyState S
   \<and> state (empty aid) = emptyState
   \<and> state (loadFromHistory aid S) = state (loadFromHistory aid' S)"
  by (simp add: loadFromHistory_eq empty_def makeFactory_def)

section \<open>Event store: loading and saving\<close>

lemma contains_iff_member: "contains xs a \<longleftrightarrow> a \<in> set xs"
  by (induction xs) auto

lemma loadEventsForAggregate_filter:
  "loadEventsForAggregate tagOf idOf st aid tags =
     filter (\<lambda>e. idOf e = aid \<and> tagOf e \<in> set tags) st"
  by (simp add: loadEventsForAggregate_def hasMatchingTag_def contains_iff_member conj_commute)

lemma loadEventsForAggregate_append:
  "loadEventsForAggregate tagOf idOf (st @ es) aid tags =
     loadEventsForAggregate tagOf idOf st aid tags @
     loadEventsForAggregate tagOf idOf es aid tags"
  by (simp add: loadEventsForAggregate_def)

lemma loadEventsForAggregate_unknown:
  "\<forall>e\<in>set st. idOf e \<noteq> aid \<Longrightarrow> loadEventsForAggregate tagOf idOf st aid tags = []"
  by (auto simp: loadEventsForAggregate_filter filter_empty_conv)

lemma loadEvents_append:
  "loadEvents tagOf (saveEvents st aid es) tags =
     loadEvents tagOf st tags @ filter (hasMatchingTag tagOf tags) es"
  by (simp add: loadEvents_def saveEvents_def)

text \<open>
  The earlier, partitioned store: saving under \<open>aid\<close> extends the partition of \<open>aid\<close>
  by the saved events, whatever identifiers the events themselves carry, and leaves
  every other partition as it was.
\<close>

lemma partitioned_saveEvents_appends:
  "partitioned_loadEvents tagOf (partitioned_saveEvents m aid es) j tags =
     (if j = aid
      then partitioned_loadEvents tagOf m aid tags @ filter (hasMatchingTag tagOf tags) es
      else partitioned_loadEvents tagOf m j tags)"
  by (simp add: partitioned_loadEvents_def partitioned_saveEvents_def Let_def
      split: option.splits)

text \<open>
  C6, as stated, at a concrete input: the store is empty, and one event that carries
  the identifier \<open>b\<close> is saved under the identifier \<open>a\<close>.  The events loadable for
  \<open>a\<close> afterwards are not the earlier ones followed by the saved event.
\<close>

theorem C6_saveEvents_counterexample:
  "loadEventsForAggregate event_tag event_aggregateId
      (saveEvents (makeInMemory []) ''a'' [UserCreated ''b'' ''X'' ''Y'' None]) ''a'' EventTags \<noteq>
   loadEventsForAggregate event_tag event_aggregateId (makeInMemory []) ''a'' EventTags @
      [UserCreated ''b'' ''X'' ''Y'' None]"
  by (simp add: saveEvents_def loadEventsForAggregate_def makeInMemory_def)

text \<open>
  C6, amended.  \<open>saveEvents\<close> puts the events, in order and all of them, at the end of
  the one log, and does not look at its identifier argument.  The events loadable
  for any aggregate \<open>j\<close> under a tag list are afterwards the earlier ones followed by
  those saved events that carry the identifier \<open>j\<close> and a listed tag, in order.  When
  every saved event carries the identifier it is saved under and a listed tag, the
  events loadable for that identifier are the earlier ones followed by the saved
  sequence.
\<close>

theorem C6_saveEvents_appends:
  "saveEvents st aid es = st @ es
   \<and> loadEventsForAggregate tagOf idOf (saveEvents st aid es) j tags =
       loadEventsForAggregate tagOf idOf st j tags @
       filter (\<lambda>e. idOf e = j \<and> tagOf e \<in> set tags) es
   \<and> ((\<forall>e\<in>set es. idOf e = aid \<and> tagOf e \<in> set tags) \<longrightarrow>
       loadEventsForAggregate tagOf idOf (saveEvents st aid es) aid tags =
         loadEventsForAggregate tagOf idOf st aid tags @ es)"
  by (simp add: saveEvents_def loadEventsForAggregate_append)
     (simp add: loadEventsForAggregate_filter)

theorem C6_saveEvents_appends_witness:
  "list_all (\<lambda>e. event_aggregateId e = ''user-001'' \<and> event_tag e \<in> set EventTags)
     [FirstNameUpdated ''user-001'' ''Bob'', PhoneNumberUpdated ''user-001'' ''555-1234'']
   \<and> loadEventsForAggregate event_tag event_aggregateId
       (saveEvents [UserCreated ''user-001'' ''Robert'' ''Smith'' None,
                    UserCreated ''user-002'' ''Alice'' ''Smith'' (Some ''555-5678'')]
          ''user-001''
          [FirstNameUpdated ''user-001'' ''Bob'', PhoneNumberUpdated ''user-001'' ''555-1234''])
       ''user-001'' EventTags =
     [UserCreated ''user-001'' ''Robert'' ''Smith'' None,
      FirstNameUpdated ''user-001'' ''Bob'', PhoneNumberUpdated ''user-001'' ''555-1234'']"
  using C6_saveEvents_appends
    [of "[UserCreated ''user-001'' ''Robert'' ''Smith'' None,
          UserCreated ''user-002'' ''Alice'' ''Smith'' (Some ''555-5678'')]"
        "''user-001''"
        "[FirstNameUpdated ''user-001'' ''Bob'', PhoneNumberUpdated ''user-001'' ''555-1234'']"
        event_tag event_aggregateId "''user-001''" EventTags]
  by (simp add: EventTags_def loadEventsForAggregate_def hasMatchingTag_def)

text \<open>
  C7.  \<open>loadEventsForAggregate\<close> returns the sublist of the log, in log order, of
  exactly the events that carry the given identifier and a tag of the given list.
  Loaded under the one tag \<open>UserCreated\<close>, no event of the result has the tag
  \<open>FirstNameUpdated\<close>.
\<close>

theorem C7_loadEventsForAggregate_filters:
  "loadEventsForAggregate tagOf idOf st aid tags =
     filter (\<lambda>e. idOf e = aid \<and> tagOf e \<in> set tags) st
   \<and> (\<forall>e \<in> set (loadEventsForAggregate event_tag event_aggregateId ust uid [''UserCreated'']).
         event_tag e \<noteq> ''FirstNameUpdated'')"
  by (simp add: loadEventsForAggregate_filter)

theorem C7_loadEventsForAggregate_filters_witness:
  "loadEventsForAggregate event_tag event_aggregateId
     [UserCreated ''user-001'' ''Robert'' ''Smith'' None,
      UserCreated ''user-002'' ''Alice'' ''Smith'' (Some ''555-5678''),
      FirstNameUpdated ''user-001'' ''Bob''] ''user-001'' [''UserCreated''] =
     [UserCreated ''user-001'' ''Robert'' ''Smith'' None]
   \<and> list_all (\<lambda>e. event_tag e \<noteq> ''FirstNameUpdated'')
       (loadEventsForAggregate event_tag event_aggregateId
          [UserCreated ''user-001'' ''Robert'' ''Smith'' None,
           UserCreated ''user-002'' ''Alice'' ''Smith'' (Some ''555-5678''),
           FirstNameUpdated ''user-001'' ''Bob''] ''user-001'' [''UserCreated''])"
  using C7_loadEventsForAggregate_filters
    [of event_tag event_aggregateId
        "[UserCreated ''user-001'' ''Robert'' ''Smith'' None,
          UserCreated ''user-002'' ''Alice'' ''Smith'' (Some ''555-5678''),
          FirstNameUpdated ''user-001'' ''Bob'']"
        "''user-001''" "[''UserCreated'']"
        "[UserCreated ''user-001'' ''Robert'' ''Smith'' None,
          UserCreated ''user-002'' ''Alice'' ''Smith'' (Some ''555-5678''),
          FirstNameUpdated ''user-001'' ''Bob'']"
        "''user-001''"]
  by (simp add: list_all_iff)

text \<open>
  C8.  An identifier that no stored event carries is not an error: loading its events
  gives the empty sequence, and \<open>getById\<close> gives the fresh aggregate of the factory,
  with the empty initial state, version 0 and two empty change lists.
\<close>

theorem C8_unknown_entity:
  "((\<forall>e\<in>set st. idOf e \<noteq> aid) \<longrightarrow> loadEventsForAggregate tagOf idOf st aid tags = [])
   \<and> ((\<forall>e\<in>set ust. event_aggregateId e \<noteq> aid) \<longrightarrow>
        getById ust aid = empty aid
        \<and> state (getById ust aid) = emptyState
        \<and> version (getById ust aid) = 0
        \<and> committedChanges (getById ust aid) = []
        \<and> uncommittedChanges (getById ust aid) = [])"
  by (simp add: loadEventsForAggregate_unknown getById_def loadFromHistory_def empty_def
      makeFactory_def)

theorem C8_unknown_entity_witness:
  "list_all (\<lambda>e. event_aggregateId e \<noteq> ''user-003'')
     [UserCreated ''user-001'' ''Robert'' ''Smith'' None,
      UserCreated ''user-002'' ''Alice'' ''Smith'' (Some ''555-5678'')]
   \<and> loadEventsForAggregate event_tag event_aggregateId
       [UserCreated ''user-001'' ''Robert'' ''Smith'' None,
        UserCreated ''user-002'' ''Alice'' ''Smith'' (Some ''555-5678'')]
       ''user-003'' EventTags = []
   \<and> getById [UserCreated ''user-001'' ''Robert'' ''Smith'' None,
              UserCreated ''user-002'' ''Alice'' ''Smith'' (Some ''555-5678'')] ''user-003'' =
       \<lparr> aggregateId = ''user-003'', state = emptyState, committedChanges = [],
         uncommittedChanges = [], version = 0 \<rparr>"
  using C8_unknown_entity
    [of "[UserCreated ''user-001'' ''Robert'' ''Smith'' None,
          UserCreated ''user-002'' ''Alice'' ''Smith'' (Some ''555-5678'')]"
        event_aggregateId "''user-003''" event_tag EventTags
        "[UserCreated ''user-001'' ''Robert'' ''Smith'' None,
          UserCreated ''user-002'' ''Alice'' ''Smith'' (Some ''555-5678'')]"]
  by (simp add: empty_def makeFactory_def)

section \<open>Repository: save followed by getById\<close>

lemma runUpdate_eq: "runUpdate a u = applyEvent a (updateEvent (aggregateId a) u) True"
  by (cases u) (simp_all add: updateFirstName_def updatePhoneNumber_def)

lemma foldl_runUpdate:
  "foldl runUpdate a us =
     a\<lparr> state := foldl applyEventToState (state a) (map (updateEvent (aggregateId a)) us),
        uncommittedChanges := uncommittedChanges a @ map (updateEvent (aggregateId a)) us,
        version := version a + length us \<rparr>"
proof (induction us arbitrary: a)
  case Nil
  show ?case by simp
next
  case (Cons u us)
  have "aggregateId (runUpdate a u) = aggregateId a"
    by (simp add: runUpdate_eq applyEvent_def makeEventApplier_def)
  then show ?case
    by (simp add: Cons.IH) (simp add: runUpdate_eq applyEvent_def makeEventApplier_def)
qed

lemma event_aggregateId_updateEvent: "event_aggregateId (updateEvent aid u) = aid"
  by (cases u) simp_all

text \<open>
  Replay after save, for any tag list that covers the tags of the updates made: the
  aggregate replayed from the store after \<open>save\<close> is the aggregate that \<open>save\<close>
  returned.
\<close>

lemma save_then_load_with_tags:
  assumes tags: "\<forall>u\<in>set us. event_tag (updateEvent aid u) \<in> set tags"
    and a: "a = foldl runUpdate
                  (loadFromHistory aid
                     (loadEventsForAggregate event_tag event_aggregateId st aid tags)) us"
  shows "loadFromHistory aid
           (loadEventsForAggregate event_tag event_aggregateId (fst (save st a)) aid tags) =
         snd (save st a)"
proof -
  let ?L = "loadEventsForAggregate event_tag event_aggregateId st aid tags"
  let ?evs = "map (updateEvent aid) us"
  have unc: "uncommittedChanges a = ?evs" and com: "committedChanges a = ?L"
    and sta: "state a = foldl applyEventToState emptyState (?L @ ?evs)"
    and ver: "version a = length ?L + length us" and ida: "aggregateId a = aid"
    by (simp_all add: a foldl_runUpdate loadFromHistory_eq)
  have "filter (\<lambda>e. event_aggregateId e = aid \<and> event_tag e \<in> set tags) ?evs = ?evs"
    using tags by (simp add: filter_id_conv event_aggregateId_updateEvent)
  then have "loadEventsForAggregate event_tag event_aggregateId (fst (save st a)) aid tags =
      ?L @ ?evs"
    by (simp add: save_def commit_def saveEvents_def unc loadEventsForAggregate_append)
       (simp add: loadEventsForAggregate_filter)
  then show ?thesis
    by (simp add: loadFromHistory_eq save_def commit_def markChangesAsCommitted_def
        unc com sta ver ida)
qed

text \<open>
  With the repository's own \<open>getById\<close>, whose tag list names \<open>UserCreated\<close> and
  \<open>FirstNameUpdated\<close>: after any sequence of first-name updates, \<open>save\<close> followed by
  \<open>getById\<close> gives back the saved aggregate.
\<close>

lemma save_getById_firstName_updates:
  assumes "list_all isUpdateFirstName us"
    and "a = foldl runUpdate (getById st aid) us"
  shows "getById (fst (save st a)) aid = snd (save st a)"
proof -
  have "\<forall>u\<in>set us. event_tag (updateEvent aid u) \<in> set [''UserCreated'', ''FirstNameUpdated'']"
  proof
    fix u assume "u \<in> set us"
    with assms(1) have "isUpdateFirstName u" by (simp add: list_all_iff)
    then show "event_tag (updateEvent aid u) \<in> set [''UserCreated'', ''FirstNameUpdated'']"
      by (cases u) simp_all
  qed
  then show ?thesis
    using assms(2)
      save_then_load_with_tags [of us aid "[''UserCreated'', ''FirstNameUpdated'']" a st]
    by (simp add: getById_def)
qed

text \<open>
  With the domain's full tag list \<open>EventTags\<close> in place of the repository's list, the
  same holds after any sequence of updates, phone-number updates included.
\<close>

lemma save_then_load_all_tags:
  assumes "a = foldl runUpdate
                 (loadFromHistory aid
                    (loadEventsForAggregate event_tag event_aggregateId st aid EventTags)) us"
  shows "loadFromHistory aid
           (loadEventsForAggregate event_tag event_aggregateId (fst (save st a)) aid EventTags) =
         snd (save st a)"
proof -
  have "\<forall>u\<in>set us. event_tag (updateEvent aid u) \<in> set EventTags"
  proof
    fix u show "event_tag (updateEvent aid u) \<in> set EventTags"
      by (cases u) (simp_all add: EventTags_def)
  qed
  then show ?thesis using assms by (rule save_then_load_with_tags)
qed

lemma demoStoreAfterCreates_eq:
  "demoStoreAfterCreates =
     [UserCreated ''user-001'' ''Robert'' ''Smith'' None,
      UserCreated ''user-002'' ''Alice'' ''Smith'' (Some ''555-5678'')]"
  by (simp add: demoStoreAfterCreates_def makeInMemory_def save_def commit_def saveEvents_def
      create_def applyEvent_def makeEventApplier_def empty_def makeFactory_def)

lemma demoUpdatedRobert_eq:
  "demoUpdatedRobert =
     \<lparr> aggregateId = ''user-001'',
       state = \<lparr> firstName = ''Bob'', lastName = ''Smith'', displayName = ''Bob Smith'',
                 phoneNumber = Some ''555-1234'' \<rparr>,
       committedChanges = [UserCreated ''user-001'' ''Robert'' ''Smith'' None],
       uncommittedChanges = [FirstNameUpdated ''user-001'' ''Bob'',
                             PhoneNumberUpdated ''user-001'' ''555-1234''],
       version = 3 \<rparr>"
  by (simp add: demoUpdatedRobert_def demoStoreAfterCreates_eq getById_def
      loadEventsForAggregate_def hasMatchingTag_def loadFromHistory_eq emptyState_def
      updateFirstName_def updatePhoneNumber_def applyEvent_def makeEventApplier_def)

lemma demoStoreAfterUpdate_eq:
  "demoStoreAfterUpdate =
     [UserCreated ''user-001'' ''Robert'' ''Smith'' None,
      UserCreated ''user-002'' ''Alice'' ''Smith'' (Some ''555-5678''),
      FirstNameUpdated ''user-001'' ''Bob'',
      PhoneNumberUpdated ''user-001'' ''555-1234'']"
  by (simp add: demoStoreAfterUpdate_def demoStoreAfterCreates_eq demoUpdatedRobert_eq
      save_def commit_def saveEvents_def)

text \<open>
  C4, at the driver's own run.  Robert is fetched by \<open>getById\<close>, renamed and given a
  phone number; the aggregate in memory has the phone number.  After \<open>save\<close>, the
  store holds the \<open>PhoneNumberUpdated\<close> event, but \<open>getById\<close> on the same identifier
  does not load events of that tag: the aggregate it rebuilds has no phone number,
  its state differs from the state in memory before \<open>save\<close>, and its committed
  changes lack the event.  Replaying the same store under the full tag list
  \<open>EventTags\<close> gives the aggregate that \<open>save\<close> returned.
\<close>

theorem C4_save_getById_drops_phoneNumber:
  "phoneNumber (state demoUpdatedRobert) = Some ''555-1234''
   \<and> phoneNumber (state (getById demoStoreAfterUpdate ''user-001'')) = None
   \<and> state (getById demoStoreAfterUpdate ''user-001'') \<noteq> state demoUpdatedRobert
   \<and> committedChanges (getById demoStoreAfterUpdate ''user-001'') =
       [UserCreated ''user-001'' ''Robert'' ''Smith'' None, FirstNameUpdated ''user-001'' ''Bob'']
   \<and> committedChanges (snd (save demoStoreAfterCreates demoUpdatedRobert)) =
       [UserCreated ''user-001'' ''Robert'' ''Smith'' None, FirstNameUpdated ''user-001'' ''Bob'',
        PhoneNumberUpdated ''user-001'' ''555-1234'']
   \<and> loadFromHistory ''user-001''
       (loadEventsForAggregate event_tag event_aggregateId demoStoreAfterUpdate ''user-001''
          EventTags) =
     snd (save demoStoreAfterCreates demoUpdatedRobert)"
  by (simp add: demoStoreAfterUpdate_eq demoUpdatedRobert_eq getById_def EventTags_def
      loadEventsForAggregate_def hasMatchingTag_def loadFromHistory_eq emptyState_def
      save_def commit_def markChangesAsCommitted_def)

section \<open>Projection: folding events into the directory\<close>

lemma map_of_Record_set:
  "map_of (Record_set r k v) k' = (if k' = k then Some v else map_of r k')"
proof -
  have "map_of (map (\<lambda>(k', v'). if k' = k then (k', v) else (k', v')) r) k' =
          (if k' = k then map_option (\<lambda>_. v) (map_of r k) else map_of r k')"
    for r :: "(string \<times> 'a) list"
    by (induction r) auto
  then show ?thesis
    by (auto simp: Record_set_def map_add_def split: option.splits)
qed

lemma directory_applyEvent_None:
  "map_of (directory_applyEvent r e) aid = None \<longleftrightarrow>
     map_of r aid = None \<and> \<not> isCreationOf aid e"
  by (cases e) (auto simp: map_of_Record_set Record_get_def split: option.splits)

lemma foldl_directory_applyEvent_None:
  "map_of (foldl directory_applyEvent r S) aid = None \<longleftrightarrow>
     map_of r aid = None \<and> \<not> list_ex (isCreationOf aid) S"
  by (induction S arbitrary: r) (auto simp: directory_applyEvent_None)

text \<open>
  C9.  The stream of a \<open>UserCreated\<close> without a phone number followed by a
  \<open>UserCreated\<close> with the phone number \<open>555-5678\<close>, for two different identifiers,
  folds to a directory with two users in total, one user with a phone, and exactly
  one entry, which is the second user's and has the phone number \<open>555-5678\<close>.
\<close>

theorem C9_directory_of_two_creations:
  "id1 \<noteq> id2 \<Longrightarrow>
   fromEvents [UserCreated id1 fn1 ln1 None, UserCreated id2 fn2 ln2 (Some ''555-5678'')] =
     \<lparr> totalUsers = 2, usersWithPhone = 1,
       entries = [\<lparr> entry_id = id2, entry_displayName = fn2 @ '' '' @ ln2,
                    entry_phoneNumber = ''555-5678'' \<rparr>] \<rparr>"
  by (simp add: fromEvents_def toDirectory_def Record_set_def Record_toEntries_def Let_def)

theorem C9_directory_of_two_creations_witness:
  "''user-001'' \<noteq> ''user-002''
   \<and> fromEvents [UserCreated ''user-001'' ''Robert'' ''Smith'' None,
                 UserCreated ''user-002'' ''Alice'' ''Smith'' (Some ''555-5678'')] =
     \<lparr> totalUsers = 2, usersWithPhone = 1,
       entries = [\<lparr> entry_id = ''user-002'', entry_displayName = ''Alice Smith'',
                    entry_phoneNumber = ''555-5678'' \<rparr>] \<rparr>"
  using C9_directory_of_two_creations
    [of "''user-001''" "''user-002''" "''Robert''" "''Smith''" "''Alice''" "''Smith''"]
  by simp

text \<open>
  C10.  An update event (\<open>FirstNameUpdated\<close> or \<open>PhoneNumberUpdated\<close>) for an
  identifier that no \<open>UserCreated\<close> event of the stream \<open>S\<close> carries is ignored by
  the fold: the projection record after \<open>S @ [e]\<close> is the one after \<open>S\<close>, and so is
  the directory.  The reducer is total here, so no error is raised, and no entry is
  created.
\<close>

theorem C10_orphan_update_ignored:
  assumes "isUpdateEvent e"
    and "\<not> list_ex (isCreationOf (event_aggregateId e)) S"
  shows "foldl directory_applyEvent [] (S @ [e]) = foldl directory_applyEvent [] S
         \<and> fromEvents (S @ [e]) = fromEvents S"
proof -
  have "map_of (foldl directory_applyEvent [] S) (event_aggregateId e) = None"
    using assms(2) by (simp add: foldl_directory_applyEvent_None)
  then have "directory_applyEvent (foldl directory_applyEvent [] S) e =
      foldl directory_applyEvent [] S"
    using assms(1) by (cases e) (simp_all add: Record_get_def)
  then show ?thesis by (simp add: fromEvents_def)
qed

theorem C10_orphan_update_ignored_witness:
  "isUpdateEvent (PhoneNumberUpdated ''user-009'' ''555-0000'')
   \<and> \<not> list_ex (isCreationOf ''user-009'')
         [UserCreated ''user-001'' ''Robert'' ''Smith'' None,
          FirstNameUpdated ''user-009'' ''Zed'']
   \<and> fromEvents ([UserCreated ''user-001'' ''Robert'' ''Smith'' None,
                   FirstNameUpdated ''user-009'' ''Zed''] @
                  [PhoneNumberUpdated ''user-009'' ''555-0000'']) =
     fromEvents [UserCreated ''user-001'' ''Robert'' ''Smith'' None,
                 FirstNameUpdated ''user-009'' ''Zed'']"
  using C10_orphan_update_ignored
    [of "PhoneNumberUpdated ''user-009'' ''555-0000''"
        "[UserCreated ''user-001'' ''Robert'' ''Smith'' None,
          FirstNameUpdated ''user-009'' ''Zed'']"]
  by simp

end
